theory Spec2Isabelle
  imports Complex_Main "HOL-Library.Sublist"
begin

text \<open>
  A shallow embedding of the adjoint transform (\<^verbatim>\<open>pennylane/transforms/adjoint.py\<close>) and
  of the quantum-chemistry operators (\<^verbatim>\<open>pennylane/ops/qubit/qchem_ops.py\<close>): their
  matrices, decompositions and \<^verbatim>\<open>adjoint\<close> methods. Definitions come first, the
  properties after them.
\<close>

section \<open>Operators\<close>

text \<open>
  The seven operator classes of \<^verbatim>\<open>pennylane/ops/qubit/qchem_ops.py\<close>, and the
  gates that their decompositions, the docstrings and the tests construct.
\<close>

datatype qchem_kind =
    SingleExcitation
  | SingleExcitationMinus
  | SingleExcitationPlus
  | DoubleExcitation
  | DoubleExcitationPlus
  | DoubleExcitationMinus
  | OrbitalRotation

datatype gate_kind = PauliX | Hadamard | CNOT | CRY | RY | RX | ControlledPhaseShift

datatype kind = QChem qchem_kind | Gate gate_kind

text \<open>
  An operator instance is its class, its parameters and its wires; parameters are
  Python floats, taken here as exact reals. \<open>Adjoint op\<close> is the wrapper class
  \<^verbatim>\<open>pennylane.ops.arithmetic.Adjoint\<close> around its base.
\<close>

datatype operator =
    Operator kind "real list" "nat list"
  | Adjoint operator

fun base :: "operator \<Rightarrow> operator option" where
  "base (Adjoint b) = Some b"
| "base (Operator k ps ws) = None"

text \<open>
  Modelled from the spec: the attributes of the Adjoint wrapper, whose class is not among
  the sources (it has \<open>wires = base.wires\<close>; the tests read \<open>out.data\<close> as the base's
  parameters).
\<close>

fun op_data :: "operator \<Rightarrow> real list" where
  "op_data (Operator k ps ws) = ps"
| "op_data (Adjoint b) = op_data b"

fun op_wires :: "operator \<Rightarrow> nat list" where
  "op_wires (Operator k ps ws) = ws"
| "op_wires (Adjoint b) = op_wires b"

section \<open>Errors and values\<close>

datatype error =
    ValueError string
  | AttributeError
  | IndexError
  | DecompositionUndefinedError
  | WireError

text \<open>The Python values that procedures return and that the transform hands back.\<close>

datatype pyval =
    PyNone
  | PyOperator operator
  | PyList "operator list"
  | PyTape "operator list"

section \<open>Recording context\<close>

text \<open>
  Modelled from the spec: the queuing context, the tape and \<^verbatim>\<open>stop_recording\<close>
  (\<^verbatim>\<open>pennylane.queuing\<close> and \<^verbatim>\<open>pennylane.tape\<close> are not among the sources).
  The context is the stack of active tapes, innermost first; constructing an operator
  appends it to the top tape, and succeeds with no effect when no tape is active.
\<close>

type_synonym queuing_context = "operator list list"

fun append_op :: "operator \<Rightarrow> queuing_context \<Rightarrow> queuing_context" where
  "append_op op [] = []"
| "append_op op (t # ts) = (t @ [op]) # ts"

fun append_ops :: "operator list \<Rightarrow> queuing_context \<Rightarrow> queuing_context" where
  "append_ops [] ctx = ctx"
| "append_ops (op # ops) ctx = append_ops ops (append_op op ctx)"

text \<open>
  A procedure is called with its arguments in a context; it returns a value or raises,
  and leaves the context with what it recorded.
\<close>

type_synonym 'a procedure = "'a \<Rightarrow> queuing_context \<Rightarrow> (error + pyval) \<times> queuing_context"

text \<open>
  Modelled from the spec: calling an operator class constructs the instance, which
  registers itself on the active tape (\<^verbatim>\<open>Operator.__init__\<close> is not among the sources).
\<close>

definition operator_class :: "kind \<Rightarrow> (real list \<times> nat list) procedure" where
  "operator_class k = (\<lambda>(params, wires) ctx.
     (Inr (PyOperator (Operator k params wires)), append_op (Operator k params wires) ctx))"

text \<open>A procedure that constructs no operator and only returns the value \<open>v\<close>.\<close>

definition return_only :: "pyval \<Rightarrow> unit procedure" where
  "return_only v = (\<lambda>u ctx. (Inr v, ctx))"

section \<open>The adjoint transform (\<^verbatim>\<open>pennylane/transforms/adjoint.py\<close>)\<close>

text \<open>
  \<^verbatim>\<open>with stop_recording(), QuantumTape() as tape: res = fn(*args, **kwargs)\<close>:
  the ambient stack is set aside, a fresh tape is the only active one while \<open>fn\<close> runs,
  and the ambient stack is back afterwards, also when \<open>fn\<close> raises.
\<close>

fun top_tape :: "queuing_context \<Rightarrow> operator list" where
  "top_tape [] = []"
| "top_tape (t # ts) = t"

definition record_fn :: "'a procedure \<Rightarrow> 'a \<Rightarrow> (error + pyval) \<times> operator list" where
  "record_fn fn args = (case fn args [[]] of (r, inner) \<Rightarrow> (r, top_tape inner))"

text \<open>\<^verbatim>\<open>tape.operations\<close> after \<^verbatim>\<open>tape = res\<close>: only a tape has the attribute.\<close>

fun operations :: "pyval \<Rightarrow> error + operator list" where
  "operations (PyTape ops) = Inr ops"
| "operations PyNone = Inl AttributeError"
| "operations (PyOperator op) = Inl AttributeError"
| "operations (PyList ops) = Inl AttributeError"

text \<open>\<^verbatim>\<open>adjoint_ops[0] if len(adjoint_ops) == 1 else adjoint_ops\<close>\<close>

definition single_or_list :: "operator list \<Rightarrow> pyval" where
  "single_or_list adjoint_ops =
     (if length adjoint_ops = 1 then PyOperator (adjoint_ops ! 0) else PyList adjoint_ops)"

definition wrapper :: "'a procedure \<Rightarrow> 'a procedure" where
  "wrapper fn args ctx =
     (case record_fn fn args of
        (Inl e, tape_ops) \<Rightarrow> (Inl e, ctx)
      | (Inr res, tape_ops) \<Rightarrow>
          (case (if tape_ops = [] then operations res else Inr tape_ops) of
             Inl e \<Rightarrow> (Inl e, ctx)
           | Inr ops \<Rightarrow>
               (let adjoint_ops = map Adjoint (rev ops)
                in (Inr (single_or_list adjoint_ops), append_ops adjoint_ops ctx))))"

text \<open>
  What \<^verbatim>\<open>adjoint\<close> can be given: a callable, or an object that is not callable, of
  which the error message needs only the renderings \<^verbatim>\<open>str(fn)\<close> and \<^verbatim>\<open>str(type(fn))\<close>.
\<close>

datatype 'a pyobj = Callable "'a procedure" | NonCallable string string

fun callable :: "'a pyobj \<Rightarrow> bool" where
  "callable (Callable fn) = True"
| "callable (NonCallable s t) = False"

definition not_callable_message :: "string \<Rightarrow> string \<Rightarrow> string" where
  "not_callable_message s t =
     ''The object '' @ s @ '' of type '' @ t @ '' is not callable. ''
     @ ''This error might occur if you apply adjoint to a list ''
     @ ''of operations instead of a function or template.''"

fun adjoint :: "'a pyobj \<Rightarrow> queuing_context \<Rightarrow> (error + 'a procedure) \<times> queuing_context" where
  "adjoint (NonCallable s t) ctx = (Inl (ValueError (not_callable_message s t)), ctx)"
| "adjoint (Callable fn) ctx = (Inr (wrapper fn), ctx)"

section \<open>The quantum-chemistry operators (\<^verbatim>\<open>pennylane/ops/qubit/qchem_ops.py\<close>)\<close>

subsection \<open>Matrices\<close>

text \<open>
  A matrix is the list of its rows. The helpers are the calls of \<^verbatim>\<open>qml.math\<close> and
  \<^verbatim>\<open>numpy\<close> that the \<^verbatim>\<open>_matrix\<close> methods make, on exact numbers and with the casts
  between real and complex left out: \<^verbatim>\<open>diag\<close>, \<^verbatim>\<open>+\<close>, scalar \<^verbatim>\<open>*\<close>,
  \<^verbatim>\<open>scatter_element_add\<close> (only ever called at indices inside the matrix) and
  \<^verbatim>\<open>np.diag([0, 1, -1, 0])[::-1]\<close>.
\<close>

type_synonym matrix = "complex list list"

fun diag :: "complex list \<Rightarrow> matrix" where
  "diag [] = []"
| "diag (x # xs) = (x # replicate (length xs) 0) # map ((#) 0) (diag xs)"

definition mat_add :: "matrix \<Rightarrow> matrix \<Rightarrow> matrix" where
  "mat_add A B = map2 (map2 (+)) A B"

definition scalar_mult :: "complex \<Rightarrow> matrix \<Rightarrow> matrix" where
  "scalar_mult s A = map (map ((*) s)) A"

definition scatter_element_add :: "matrix \<Rightarrow> nat \<times> nat \<Rightarrow> complex \<Rightarrow> matrix" where
  "scatter_element_add A idx v =
     (case idx of (i, j) \<Rightarrow> A[i := (A ! i)[j := A ! i ! j + v]])"

definition off_diag :: matrix where
  "off_diag = rev (diag [0, 1, - 1, 0])"

text \<open>
  \<^verbatim>\<open>_matrix(cls, *params)\<close> reads \<^verbatim>\<open>params[0]\<close>, which raises on an empty
  parameter tuple and ignores further parameters.
\<close>

fun param0 :: "real list \<Rightarrow> error + real" where
  "param0 [] = Inl IndexError"
| "param0 (theta # rest) = Inr theta"

definition SingleExcitation_matrix :: "real \<Rightarrow> matrix" where
  "SingleExcitation_matrix theta =
     (let c = complex_of_real (cos (theta / 2));
          s = complex_of_real (sin (theta / 2));
          mat = diag [1, c, c, 1]
      in mat_add mat (scalar_mult s off_diag))"

definition SingleExcitationMinus_matrix :: "real \<Rightarrow> matrix" where
  "SingleExcitationMinus_matrix theta =
     (let c = complex_of_real (cos (theta / 2));
          s = complex_of_real (sin (theta / 2));
          e = exp (- \<i> * complex_of_real theta / 2);
          mat = mat_add (diag [e, 0, 0, e]) (diag [0, c, c, 0])
      in mat_add mat (scalar_mult s off_diag))"

definition SingleExcitationPlus_matrix :: "real \<Rightarrow> matrix" where
  "SingleExcitationPlus_matrix theta =
     (let c = complex_of_real (cos (theta / 2));
          s = complex_of_real (sin (theta / 2));
          e = exp (\<i> * complex_of_real theta / 2);
          mat = mat_add (diag [e, 0, 0, e]) (diag [0, c, c, 0])
      in mat_add mat (scalar_mult s off_diag))"

definition DoubleExcitation_matrix :: "real \<Rightarrow> matrix" where
  "DoubleExcitation_matrix theta =
     (let c = complex_of_real (cos (theta / 2));
          s = complex_of_real (sin (theta / 2));
          mat = diag (replicate 3 1 @ [c] @ replicate 8 1 @ [c] @ replicate 3 1);
          mat = scatter_element_add mat (3, 12) (- s);
          mat = scatter_element_add mat (12, 3) s
      in mat)"

definition DoubleExcitationPlus_matrix :: "real \<Rightarrow> matrix" where
  "DoubleExcitationPlus_matrix theta =
     (let c = complex_of_real (cos (theta / 2));
          s = complex_of_real (sin (theta / 2));
          e = exp (\<i> * complex_of_real theta / 2);
          mat = diag (replicate 3 e @ [0] @ replicate 8 e @ [0] @ replicate 3 e);
          mat = scatter_element_add mat (3, 3) c;
          mat = scatter_element_add mat (3, 12) (- s);
          mat = scatter_element_add mat (12, 3) s;
          mat = scatter_element_add mat (12, 12) c
      in mat)"

definition DoubleExcitationMinus_matrix :: "real \<Rightarrow> matrix" where
  "DoubleExcitationMinus_matrix theta =
     (let c = complex_of_real (cos (theta / 2));
          s = complex_of_real (sin (theta / 2));
          e = exp (- \<i> * complex_of_real theta / 2);
          mat = diag (replicate 3 e @ [0] @ replicate 8 e @ [0] @ replicate 3 e);
          mat = scatter_element_add mat (3, 3) c;
          mat = scatter_element_add mat (3, 12) (- s);
          mat = scatter_element_add mat (12, 3) s;
          mat = scatter_element_add mat (12, 12) c
      in mat)"

definition OrbitalRotation_matrix :: "real \<Rightarrow> matrix" where
  "OrbitalRotation_matrix phi =
     (let c = complex_of_real (cos (phi / 2));
          s = complex_of_real (sin (phi / 2));
          z = replicate 16 0;
          diag_part = diag [1, c, c, c ^ 2, c, 1, c ^ 2, c, c, c ^ 2, 1, c, c ^ 2, c, c, 1]
      in mat_add diag_part
          [ z,
            [0, 0, 0, 0, - s, 0, 0, 0, 0, 0, 0, 0, 0, 0, 0, 0],
            [0, 0, 0, 0, 0, 0, 0, 0, - s, 0, 0, 0, 0, 0, 0, 0],
            [0, 0, 0, 0, 0, 0, - c * s, 0, 0, - c * s, 0, 0, s * s, 0, 0, 0],
            [0, s, 0, 0, 0, 0, 0, 0, 0, 0, 0, 0, 0, 0, 0, 0],
            z,
            [0, 0, 0, c * s, 0, 0, 0, 0, 0, - s * s, 0, 0, - c * s, 0, 0, 0],
            [0, 0, 0, 0, 0, 0, 0, 0, 0, 0, 0, 0, 0, - s, 0, 0],
            [0, 0, s, 0, 0, 0, 0, 0, 0, 0, 0, 0, 0, 0, 0, 0],
            [0, 0, 0, c * s, 0, 0, - s * s, 0, 0, 0, 0, 0, - c * s, 0, 0, 0],
            z,
            [0, 0, 0, 0, 0, 0, 0, 0, 0, 0, 0, 0, 0, 0, - s, 0],
            [0, 0, 0, s * s, 0, 0, c * s, 0, 0, c * s, 0, 0, 0, 0, 0, 0],
            [0, 0, 0, 0, 0, 0, 0, s, 0, 0, 0, 0, 0, 0, 0, 0],
            [0, 0, 0, 0, 0, 0, 0, 0, 0, 0, 0, s, 0, 0, 0, 0],
            z ])"

fun matrix :: "qchem_kind \<Rightarrow> real list \<Rightarrow> error + matrix" where
  "matrix SingleExcitation params = map_sum id SingleExcitation_matrix (param0 params)"
| "matrix SingleExcitationMinus params = map_sum id SingleExcitationMinus_matrix (param0 params)"
| "matrix SingleExcitationPlus params = map_sum id SingleExcitationPlus_matrix (param0 params)"
| "matrix DoubleExcitation params = map_sum id DoubleExcitation_matrix (param0 params)"
| "matrix DoubleExcitationPlus params = map_sum id DoubleExcitationPlus_matrix (param0 params)"
| "matrix DoubleExcitationMinus params = map_sum id DoubleExcitationMinus_matrix (param0 params)"
| "matrix OrbitalRotation params = map_sum id OrbitalRotation_matrix (param0 params)"

text \<open>The conjugate transpose of a square matrix, as the property tests compare against.\<close>

definition dagger :: "matrix \<Rightarrow> matrix" where
  "dagger U = map (\<lambda>i. map (\<lambda>j. cnj (U ! j ! i)) [0..<length U]) [0..<length U]"

subsection \<open>Decompositions\<close>

text \<open>
  Modelled from the spec: \<^verbatim>\<open>DoubleExcitationPlus\<close> and \<^verbatim>\<open>DoubleExcitationMinus\<close>
  define no \<^verbatim>\<open>compute_decomposition\<close> and inherit that of the base class
  \<^verbatim>\<open>Operation\<close>, which is not among the sources: a kind with no decomposition that is
  asked to decompose gives the condition "decomposition undefined" to its caller.
\<close>

definition decomposition_undefined :: "error + operator list" where
  "decomposition_undefined = Inl DecompositionUndefinedError"

text \<open>
  The other five build a list literal from \<^verbatim>\<open>wires[0]\<close>, \<^verbatim>\<open>wires[1]\<close>, ...; an index
  beyond the given wires raises, and wires beyond the ones read are ignored.
\<close>

fun compute_decomposition :: "qchem_kind \<Rightarrow> real \<Rightarrow> nat list \<Rightarrow> error + operator list" where
  "compute_decomposition SingleExcitation phi wires =
     (if length wires < 2 then Inl IndexError
      else Inr
        [ Operator (Gate CNOT) [] [wires ! 0, wires ! 1],
          Operator (Gate CRY) [phi] [wires ! 1, wires ! 0],
          Operator (Gate CNOT) [] [wires ! 0, wires ! 1] ])"
| "compute_decomposition SingleExcitationMinus phi wires =
     (if length wires < 2 then Inl IndexError
      else Inr
        [ Operator (Gate PauliX) [] [wires ! 0],
          Operator (Gate PauliX) [] [wires ! 1],
          Operator (Gate ControlledPhaseShift) [- phi / 2] [wires ! 1, wires ! 0],
          Operator (Gate PauliX) [] [wires ! 0],
          Operator (Gate PauliX) [] [wires ! 1],
          Operator (Gate ControlledPhaseShift) [- phi / 2] [wires ! 0, wires ! 1],
          Operator (Gate CNOT) [] [wires ! 0, wires ! 1],
          Operator (Gate CRY) [phi] [wires ! 1, wires ! 0],
          Operator (Gate CNOT) [] [wires ! 0, wires ! 1] ])"
| "compute_decomposition SingleExcitationPlus phi wires =
     (if length wires < 2 then Inl IndexError
      else Inr
        [ Operator (Gate PauliX) [] [wires ! 0],
          Operator (Gate PauliX) [] [wires ! 1],
          Operator (Gate ControlledPhaseShift) [phi / 2] [wires ! 1, wires ! 0],
          Operator (Gate PauliX) [] [wires ! 0],
          Operator (Gate PauliX) [] [wires ! 1],
          Operator (Gate ControlledPhaseShift) [phi / 2] [wires ! 0, wires ! 1],
          Operator (Gate CNOT) [] [wires ! 0, wires ! 1],
          Operator (Gate CRY) [phi] [wires ! 1, wires ! 0],
          Operator (Gate CNOT) [] [wires ! 0, wires ! 1] ])"
| "compute_decomposition DoubleExcitation phi wires =
     (if length wires < 4 then Inl IndexError
      else Inr
        [ Operator (Gate CNOT) [] [wires ! 2, wires ! 3],
          Operator (Gate CNOT) [] [wires ! 0, wires ! 2],
          Operator (Gate Hadamard) [] [wires ! 3],
          Operator (Gate Hadamard) [] [wires ! 0],
          Operator (Gate CNOT) [] [wires ! 2, wires ! 3],
          Operator (Gate CNOT) [] [wires ! 0, wires ! 1],
          Operator (Gate RY) [phi / 8] [wires ! 1],
          Operator (Gate RY) [- phi / 8] [wires ! 0],
          Operator (Gate CNOT) [] [wires ! 0, wires ! 3],
          Operator (Gate Hadamard) [] [wires ! 3],
          Operator (Gate CNOT) [] [wires ! 3, wires ! 1],
          Operator (Gate RY) [phi / 8] [wires ! 1],
          Operator (Gate RY) [- phi / 8] [wires ! 0],
          Operator (Gate CNOT) [] [wires ! 2, wires ! 1],
          Operator (Gate CNOT) [] [wires ! 2, wires ! 0],
          Operator (Gate RY) [- phi / 8] [wires ! 1],
          Operator (Gate RY) [phi / 8] [wires ! 0],
          Operator (Gate CNOT) [] [wires ! 3, wires ! 1],
          Operator (Gate Hadamard) [] [wires ! 3],
          Operator (Gate CNOT) [] [wires ! 0, wires ! 3],
          Operator (Gate RY) [- phi / 8] [wires ! 1],
          Operator (Gate RY) [phi / 8] [wires ! 0],
          Operator (Gate CNOT) [] [wires ! 0, wires ! 1],
          Operator (Gate CNOT) [] [wires ! 2, wires ! 0],
          Operator (Gate Hadamard) [] [wires ! 0],
          Operator (Gate Hadamard) [] [wires ! 3],
          Operator (Gate CNOT) [] [wires ! 0, wires ! 2],
          Operator (Gate CNOT) [] [wires ! 2, wires ! 3] ])"
| "compute_decomposition DoubleExcitationPlus phi wires = decomposition_undefined"
| "compute_decomposition DoubleExcitationMinus phi wires = decomposition_undefined"
| "compute_decomposition OrbitalRotation phi wires =
     (if length wires < 4 then Inl IndexError
      else Inr
        [ Operator (Gate Hadamard) [] [wires ! 3],
          Operator (Gate Hadamard) [] [wires ! 2],
          Operator (Gate CNOT) [] [wires ! 3, wires ! 1],
          Operator (Gate CNOT) [] [wires ! 2, wires ! 0],
          Operator (Gate RY) [phi / 2] [wires ! 3],
          Operator (Gate RY) [phi / 2] [wires ! 2],
          Operator (Gate RY) [phi / 2] [wires ! 1],
          Operator (Gate RY) [phi / 2] [wires ! 0],
          Operator (Gate CNOT) [] [wires ! 3, wires ! 1],
          Operator (Gate CNOT) [] [wires ! 2, wires ! 0],
          Operator (Gate Hadamard) [] [wires ! 3],
          Operator (Gate Hadamard) [] [wires ! 2] ])"

subsection \<open>The \<^verbatim>\<open>adjoint\<close> methods\<close>

text \<open>\<^verbatim>\<open>(phi,) = self.parameters\<close> needs exactly one parameter.\<close>

fun unpack1 :: "real list \<Rightarrow> error + real" where
  "unpack1 [phi] = Inr phi"
| "unpack1 [] = Inl (ValueError ''not enough values to unpack (expected 1, got 0)'')"
| "unpack1 (x # y # rest) = Inl (ValueError ''too many values to unpack (expected 1)'')"

text \<open>The operator that each class's \<^verbatim>\<open>adjoint(self)\<close> constructs.\<close>

fun adjoint_method :: "qchem_kind \<Rightarrow> real list \<Rightarrow> nat list \<Rightarrow> error + operator" where
  "adjoint_method SingleExcitation parameters wires =
     map_sum id (\<lambda>phi. Operator (QChem SingleExcitation) [- phi] wires) (unpack1 parameters)"
| "adjoint_method SingleExcitationMinus parameters wires =
     map_sum id (\<lambda>phi. Operator (QChem SingleExcitationMinus) [- phi] wires) (unpack1 parameters)"
| "adjoint_method SingleExcitationPlus parameters wires =
     map_sum id (\<lambda>phi. Operator (QChem SingleExcitationPlus) [- phi] wires) (unpack1 parameters)"
| "adjoint_method DoubleExcitation parameters wires =
     map_sum id (\<lambda>theta. Operator (QChem DoubleExcitation) [- theta] wires) (unpack1 parameters)"
| "adjoint_method DoubleExcitationPlus parameters wires =
     map_sum id (\<lambda>theta. Operator (QChem DoubleExcitationPlus) [- theta] wires) (unpack1 parameters)"
| "adjoint_method DoubleExcitationMinus parameters wires =
     map_sum id (\<lambda>theta. Operator (QChem DoubleExcitationMinus) [- theta] wires) (unpack1 parameters)"
| "adjoint_method OrbitalRotation parameters wires =
     map_sum id (\<lambda>phi. Operator (QChem OrbitalRotation) [- phi] wires) (unpack1 parameters)"

text \<open>
  The same call on objects in a store, where the receiver and the result are references:
  the store maps the identities of the live operator objects to their attributes, and the
  active tapes hold identities. Constructing the result allocates a new object and
  registers it on the active tape, as every operator construction does. The call is
  \<open>None\<close> where \<open>self\<close> is not an object of one of the seven classes.
\<close>

record store =
  objects :: "nat \<rightharpoonup> operator"
  next_id :: nat
  recording :: "nat list list"

fun append_id :: "nat \<Rightarrow> nat list list \<Rightarrow> nat list list" where
  "append_id a [] = []"
| "append_id a (t # ts) = (t @ [a]) # ts"

definition new_object :: "operator \<Rightarrow> store \<Rightarrow> nat \<times> store" where
  "new_object obj s =
     (next_id s,
      s\<lparr>objects := (objects s)(next_id s \<mapsto> obj),
        next_id := Suc (next_id s),
        recording := append_id (next_id s) (recording s)\<rparr>)"

definition adjoint_call :: "nat \<Rightarrow> store \<Rightarrow> ((error + nat) \<times> store) option" where
  "adjoint_call self s =
     (case objects s self of
        Some (Operator (QChem k) parameters wires) \<Rightarrow>
          (case adjoint_method k parameters wires of
             Inl e \<Rightarrow> Some (Inl e, s)
           | Inr obj \<Rightarrow> (case new_object obj s of (a, s') \<Rightarrow> Some (Inr a, s')))
      | _ \<Rightarrow> None)"

subsection \<open>The matrix of a sequence of operators\<close>

text \<open>
  Modelled from the spec: the matrices of the gates that the decompositions construct. Their
  classes (\<^verbatim>\<open>pennylane.ops.qubit\<close>) are not among the sources and the spec only names
  them; each is given the standard matrix that its name denotes, in the basis ordered by
  the gate's own wires from most to least significant (a controlled gate's first wire is
  the control).
\<close>

definition inv_sqrt2 :: complex where
  "inv_sqrt2 = complex_of_real (1 / sqrt 2)"

fun gate_matrix :: "gate_kind \<Rightarrow> real list \<Rightarrow> error + matrix" where
  "gate_matrix PauliX params = Inr [[0, 1], [1, 0]]"
| "gate_matrix Hadamard params = Inr [[inv_sqrt2, inv_sqrt2], [inv_sqrt2, - inv_sqrt2]]"
| "gate_matrix CNOT params = Inr [[1, 0, 0, 0], [0, 1, 0, 0], [0, 0, 0, 1], [0, 0, 1, 0]]"
| "gate_matrix RY params = map_sum id (\<lambda>theta.
     (let c = complex_of_real (cos (theta / 2)); s = complex_of_real (sin (theta / 2))
      in [[c, - s], [s, c]])) (param0 params)"
| "gate_matrix RX params = map_sum id (\<lambda>theta.
     (let c = complex_of_real (cos (theta / 2)); js = \<i> * complex_of_real (sin (theta / 2))
      in [[c, - js], [- js, c]])) (param0 params)"
| "gate_matrix CRY params = map_sum id (\<lambda>theta.
     (let c = complex_of_real (cos (theta / 2)); s = complex_of_real (sin (theta / 2))
      in [[1, 0, 0, 0], [0, 1, 0, 0], [0, 0, c, - s], [0, 0, s, c]])) (param0 params)"
| "gate_matrix ControlledPhaseShift params = map_sum id (\<lambda>theta.
     [[1, 0, 0, 0], [0, 1, 0, 0], [0, 0, 1, 0], [0, 0, 0, exp (\<i> * complex_of_real theta)]])
     (param0 params)"

text \<open>
  Modelled from the spec: a matrix on some wires of a register of \<open>n\<close> wires. Basis state
  \<open>x < 2 ^ n\<close> has the bit of the wire at position \<open>p\<close> at binary place \<open>n - 1 - p\<close>
  (the first wire is the most significant); the gate acts on the bits at the positions
  \<open>ps\<close>, in that order, and leaves the other bits as they are.
\<close>

definition bit_at :: "nat \<Rightarrow> nat \<Rightarrow> nat \<Rightarrow> nat" where
  "bit_at n p x = (x div 2 ^ (n - 1 - p)) mod 2"

definition sub_index :: "nat \<Rightarrow> nat list \<Rightarrow> nat \<Rightarrow> nat" where
  "sub_index n ps x = foldl (\<lambda>a p. 2 * a + bit_at n p x) 0 ps"

definition rest_bits :: "nat \<Rightarrow> nat list \<Rightarrow> nat \<Rightarrow> nat list" where
  "rest_bits n ps x = map (\<lambda>p. if p \<in> set ps then 0 else bit_at n p x) [0..<n]"

definition embed_matrix :: "nat \<Rightarrow> nat list \<Rightarrow> matrix \<Rightarrow> matrix" where
  "embed_matrix n ps g =
     map (\<lambda>r. map (\<lambda>c. if rest_bits n ps r = rest_bits n ps c
                         then g ! sub_index n ps r ! sub_index n ps c else 0)
                 [0..<2 ^ n]) [0..<2 ^ n]"

text \<open>The position of a wire label in the register; a label that is not there is an error.\<close>

fun wire_position :: "nat list \<Rightarrow> nat \<Rightarrow> error + nat" where
  "wire_position [] w = Inl WireError"
| "wire_position (x # xs) w =
     (if x = w then Inr 0 else map_sum id (\<lambda>i. i + 1) (wire_position xs w))"

fun collect :: "(error + 'a) list \<Rightarrow> error + 'a list" where
  "collect [] = Inr []"
| "collect (Inl e # rs) = Inl e"
| "collect (Inr x # rs) = map_sum id ((#) x) (collect rs)"

definition embed_on :: "nat list \<Rightarrow> nat list \<Rightarrow> matrix \<Rightarrow> error + matrix" where
  "embed_on wires ws g =
     (case collect (map (wire_position wires) ws) of
        Inl e \<Rightarrow> Inl e
      | Inr ps \<Rightarrow>
          if distinct ps \<and> length g = 2 ^ length ps
          then Inr (embed_matrix (length wires) ps g) else Inl WireError)"

fun operator_matrix :: "nat list \<Rightarrow> operator \<Rightarrow> error + matrix" where
  "operator_matrix wires (Operator (Gate g) params ws) =
     (case gate_matrix g params of Inl e \<Rightarrow> Inl e | Inr m \<Rightarrow> embed_on wires ws m)"
| "operator_matrix wires (Operator (QChem k) params ws) =
     (case matrix k params of Inl e \<Rightarrow> Inl e | Inr m \<Rightarrow> embed_on wires ws m)"
| "operator_matrix wires (Adjoint b) = map_sum id dagger (operator_matrix wires b)"

text \<open>
  The matrix product, row by row: row \<open>i\<close> of \<open>A B\<close> is the sum over \<open>k\<close> of \<open>A i k\<close> times
  row \<open>k\<close> of \<open>B\<close>.
\<close>

definition axpy :: "complex \<Rightarrow> complex list \<Rightarrow> complex list \<Rightarrow> complex list" where
  "axpy x b acc = map2 (\<lambda>bj aj. aj + x * bj) b acc"

fun lincomb :: "complex list \<Rightarrow> matrix \<Rightarrow> complex list \<Rightarrow> complex list" where
  "lincomb (x # xs) (b # bs) acc = lincomb xs bs (axpy x b acc)"
| "lincomb [] bs acc = acc"
| "lincomb xs [] acc = acc"

definition mat_mul :: "matrix \<Rightarrow> matrix \<Rightarrow> matrix" where
  "mat_mul A B =
     map (\<lambda>row. lincomb row B (replicate (case B of [] \<Rightarrow> 0 | b # bs \<Rightarrow> length b) 0)) A"

definition identity_matrix :: "nat \<Rightarrow> matrix" where
  "identity_matrix n = diag (replicate n 1)"

text \<open>
  The matrix of a sequence of operators on the register \<open>wires\<close>, the first of the sequence
  applied first: the matrix of each operator multiplies, from the left, the product of
  the ones before it.
\<close>

definition apply_gates :: "matrix list \<Rightarrow> matrix \<Rightarrow> matrix" where
  "apply_gates Gs U = foldl (\<lambda>U G. mat_mul G U) U Gs"

definition matrix_product :: "nat list \<Rightarrow> operator list \<Rightarrow> error + matrix" where
  "matrix_product wires ops =
     map_sum id (\<lambda>Gs. apply_gates Gs (identity_matrix (2 ^ length wires)))
       (collect (map (operator_matrix wires) ops))"

text \<open>\<^verbatim>\<open>num_wires\<close> of each class.\<close>

fun num_wires :: "qchem_kind \<Rightarrow> nat" where
  "num_wires SingleExcitation = 2"
| "num_wires SingleExcitationMinus = 2"
| "num_wires SingleExcitationPlus = 2"
| "num_wires DoubleExcitation = 4"
| "num_wires DoubleExcitationPlus = 4"
| "num_wires DoubleExcitationMinus = 4"
| "num_wires OrbitalRotation = 4"

text \<open>
  For the proofs: \<open>hpoly C S [a\<^sub>0, ..., a\<^sub>d]\<close> is the homogeneous polynomial
  \<open>\<Sum>i. a\<^sub>i C\<^sup>i S\<^bsup>d - i\<^esup>\<close>, and \<open>nf R C S k as\<close> is \<open>R\<^sup>k\<close> times it.
\<close>

fun hpoly :: "complex \<Rightarrow> complex \<Rightarrow> complex list \<Rightarrow> complex" where
  "hpoly C S [] = 0"
| "hpoly C S (a # as) = a * S ^ length as + C * hpoly C S as"

definition nf :: "complex \<Rightarrow> complex \<Rightarrow> complex \<Rightarrow> nat \<Rightarrow> complex list \<Rightarrow> complex" where
  "nf R C S k as = R ^ k * hpoly C S as"

section \<open>Properties of the transform\<close>

lemma append_ops_top: "append_ops ops (t # ts) = (t @ ops) # ts"
  by (induction ops arbitrary: t) simp_all

lemma wrapper_recorded:
  assumes "fn args [[]] = (Inr res, [ops])" and "ops \<noteq> []"
  shows "wrapper fn args ctx =
    (Inr (single_or_list (map Adjoint (rev ops))), append_ops (map Adjoint (rev ops)) ctx)"
  using assms by (simp add: wrapper_def record_fn_def Let_def)

lemma wrapper_returned:
  assumes "fn args [[]] = (Inr (PyTape ops), [[]])"
  shows "wrapper fn args ctx =
    (Inr (single_or_list (map Adjoint (rev ops))), append_ops (map Adjoint (rev ops)) ctx)"
  using assms by (simp add: wrapper_def record_fn_def Let_def)

lemma wrapper_no_operations:
  assumes "fn args [[]] = (Inr res, [[]])" and "operations res = Inl e"
  shows "wrapper fn args ctx = (Inl e, ctx)"
  using assms by (simp add: wrapper_def record_fn_def)

lemma single_or_list_cases:
  "ops \<noteq> [] \<Longrightarrow> single_or_list (map Adjoint (rev ops)) =
     (if length ops = 1 then PyOperator (Adjoint (ops ! 0)) else PyList (map Adjoint (rev ops)))"
  by (cases ops) (auto simp: single_or_list_def)

lemma wrapper_single:
  assumes "fn args [[]] = (Inr res, [[op]])"
  shows "wrapper fn args ctx = (Inr (PyOperator (Adjoint op)), append_op (Adjoint op) ctx)"
  using wrapper_recorded [where fn = fn and args = args and ops = "[op]" and ctx = ctx] assms
  by (simp add: single_or_list_def)

lemma operator_class_records:
  "operator_class k (params, wires) [[]] =
     (Inr (PyOperator (Operator k params wires)), [[Operator k params wires]])"
  by (simp add: operator_class_def)

lemma wrapper_operator_class:
  "wrapper (operator_class k) (params, wires) ctx =
     (Inr (PyOperator (Adjoint (Operator k params wires))),
      append_op (Adjoint (Operator k params wires)) ctx)"
  by (simp add: wrapper_def record_fn_def operator_class_def single_or_list_def)

text \<open>
  C1: a procedure that records the operators \<open>ops\<close> (at least one) is transformed into one
  that hands back, and records on the ambient tape, the Adjoint wrappers of \<open>ops\<close> in
  reverse order: as many as were recorded, and the wrapper itself instead of a list when
  there is exactly one.
\<close>

theorem adjoint_reverses_recorded_operators:
  assumes "fn args [[]] = (Inr res, [ops])" and "ops \<noteq> []"
  shows "adjoint (Callable fn) ctx0 = (Inr (wrapper fn), ctx0)
       \<and> wrapper fn args ctx =
           (Inr (if length ops = 1 then PyOperator (Adjoint (ops ! 0))
                 else PyList (map Adjoint (rev ops))),
            append_ops (map Adjoint (rev ops)) ctx)
       \<and> length (map Adjoint (rev ops)) = length ops"
  using wrapper_recorded [where fn = fn and args = args, OF assms]
    single_or_list_cases [OF assms(2)] by simp

text \<open>
  C1, at a procedure that records \<open>RX(1.23)\<close>, \<open>RY(2.34)\<close> and \<open>PauliX\<close> on wire 0, called
  inside an empty ambient tape.
\<close>

theorem adjoint_reverses_recorded_operators_witness:
  "wrapper (\<lambda>(u::unit) ctx. (Inr PyNone,
        append_ops [Operator (Gate RX) [1.23] [0], Operator (Gate RY) [2.34] [0],
                    Operator (Gate PauliX) [] [0]] ctx)) () [[]]
   = (Inr (PyList [Adjoint (Operator (Gate PauliX) [] [0]),
                   Adjoint (Operator (Gate RY) [2.34] [0]),
                   Adjoint (Operator (Gate RX) [1.23] [0])]),
      [[Adjoint (Operator (Gate PauliX) [] [0]),
        Adjoint (Operator (Gate RY) [2.34] [0]),
        Adjoint (Operator (Gate RX) [1.23] [0])]])"
  using adjoint_reverses_recorded_operators [where fn =
     "\<lambda>(u::unit) ctx. (Inr PyNone,
        append_ops [Operator (Gate RX) [1.23] [0], Operator (Gate RY) [2.34] [0],
                    Operator (Gate PauliX) [] [0]] ctx)" and args = "()" and res = PyNone
     and ops = "[Operator (Gate RX) [1.23] [0], Operator (Gate RY) [2.34] [0],
                    Operator (Gate PauliX) [] [0]]" and ctx = "[[]]"]
  by simp

text \<open>
  C2, as stated, fails: the transform applied twice to the class \<open>RX\<close>, called with
  4.321 on wire 1, gives \<open>Adjoint (Adjoint (RX ...))\<close>, whose base is the inner wrapper
  and not the \<open>RX\<close> operator.
\<close>

theorem nested_adjoint_counterexample:
  "fst (wrapper (wrapper (operator_class (Gate RX))) ([4.321], [1]) [])
     = Inr (PyOperator (Adjoint (Adjoint (Operator (Gate RX) [4.321] [1]))))
   \<and> base (Adjoint (Adjoint (Operator (Gate RX) [4.321] [1])))
       \<noteq> Some (Operator (Gate RX) [4.321] [1])"
proof -
  let ?op = "Operator (Gate RX) [4.321] [1]"
  have inner: "wrapper (operator_class (Gate RX)) ([4.321], [1]) [[]]
      = (Inr (PyOperator (Adjoint ?op)), [[Adjoint ?op]])"
    by (simp add: wrapper_operator_class)
  show ?thesis
    using wrapper_single [where fn = "wrapper (operator_class (Gate RX))"
        and args = "([4.321], [1])" and op = "Adjoint ?op" and ctx = "[]"] inner
    by simp
qed

text \<open>
  C2, amended: the transform applied twice to a procedure that records the single
  operator \<open>op\<close> gives the double wrapper \<open>Adjoint (Adjoint op)\<close>: its base is
  \<open>Adjoint op\<close>, the base of that is \<open>op\<close>, and its parameters and wires are those of \<open>op\<close>.
\<close>

theorem nested_adjoint_wraps_twice:
  assumes "fn args [[]] = (Inr res, [[op]])"
  shows "\<exists>out. wrapper (wrapper fn) args ctx = (Inr (PyOperator out), append_op out ctx)
       \<and> out = Adjoint (Adjoint op)
       \<and> base out = Some (Adjoint op) \<and> base (Adjoint op) = Some op
       \<and> op_data out = op_data op \<and> op_wires out = op_wires op"
proof -
  have inner: "wrapper fn args [[]] = (Inr (PyOperator (Adjoint op)), [[Adjoint op]])"
    using wrapper_single [where fn = fn and args = args and ctx = "[[]]", OF assms] by simp
  show ?thesis
    using wrapper_single [where fn = "wrapper fn" and args = args and ctx = ctx, OF inner]
    by simp
qed

text \<open>C2, amended, at the class \<open>RX\<close> called with 4.321 on wire 1.\<close>

theorem nested_adjoint_wraps_twice_witness:
  "wrapper (wrapper (operator_class (Gate RX))) ([4.321], [1]) [[]]
     = (Inr (PyOperator (Adjoint (Adjoint (Operator (Gate RX) [4.321] [1])))),
        [[Adjoint (Adjoint (Operator (Gate RX) [4.321] [1]))]])"
  using nested_adjoint_wraps_twice [where fn = "operator_class (Gate RX)"
      and args = "([4.321], [1])" and op = "Operator (Gate RX) [4.321] [1]" and ctx = "[[]]"]
  by (simp add: operator_class_records)

text \<open>
  C3, as stated, fails: \<open>SingleExcitation\<close> defines the closed form
  \<open>SingleExcitation(-phi)\<close>, yet the transform of the class called with 0.123 does not
  hand that back; and the transform of \<open>RX\<close> called with 0.123 on wire 0 does not hand
  back \<open>RX\<close> with parameter -0.123.
\<close>

theorem adjoint_shortcut_counterexample:
  "adjoint_method SingleExcitation [0.123] [0, 1]
     = Inr (Operator (QChem SingleExcitation) [- 0.123] [0, 1])
   \<and> fst (wrapper (operator_class (QChem SingleExcitation)) ([0.123], [0, 1]) [])
       \<noteq> Inr (PyOperator (Operator (QChem SingleExcitation) [- 0.123] [0, 1]))
   \<and> fst (wrapper (operator_class (Gate RX)) ([0.123], [0]) [])
       \<noteq> Inr (PyOperator (Operator (Gate RX) [- 0.123] [0]))"
  by (simp add: wrapper_operator_class)

text \<open>
  C3, amended: every operator of the reversed recorded sequence is mapped to the generic
  wrapper \<open>Adjoint op\<close>, whatever its kind and whether or not its class defines a closed
  form; in particular the transform of \<open>RX\<close> called with 0.123 on wire 0 gives one
  Adjoint wrapper whose base is \<open>RX\<close> with the parameter 0.123.
\<close>

theorem adjoint_always_wraps:
  assumes "fn args [[]] = (Inr res, [ops])" and "ops \<noteq> []"
  shows "\<exists>out. fst (wrapper fn args ctx) = Inr (single_or_list out)
       \<and> map base out = map Some (rev ops)
       \<and> fst (wrapper (operator_class (Gate RX)) ([0.123], [0]) ctx)
           = Inr (PyOperator (Adjoint (Operator (Gate RX) [0.123] [0])))"
proof -
  have "fst (wrapper fn args ctx) = Inr (single_or_list (map Adjoint (rev ops)))"
    using wrapper_recorded [where fn = fn and args = args and ctx = ctx, OF assms] by simp
  moreover have "map base (map Adjoint (rev ops)) = map Some (rev ops)"
    by simp
  ultimately show ?thesis
    by (intro exI [where x = "map Adjoint (rev ops)"]) (simp add: wrapper_operator_class)
qed

text \<open>C3, amended, at the class \<open>SingleExcitation\<close> called with 0.123 on wires 0 and 1.\<close>

theorem adjoint_always_wraps_witness:
  "fst (wrapper (operator_class (QChem SingleExcitation)) ([0.123], [0, 1]) [])
     = Inr (PyOperator (Adjoint (Operator (QChem SingleExcitation) [0.123] [0, 1])))"
  using adjoint_always_wraps [where fn = "operator_class (QChem SingleExcitation)"
      and args = "([0.123], [0, 1])"
      and ops = "[Operator (QChem SingleExcitation) [0.123] [0, 1]]" and ctx = "[]"]
  by (simp add: wrapper_operator_class)

text \<open>
  C4: given an object that is not callable, \<open>adjoint\<close> raises the ValueError at once: the
  recording context is as it was, no wrapper is made, and the message contains the
  rendering of the object's type.
\<close>

theorem adjoint_rejects_noncallable:
  "adjoint (NonCallable s t) ctx = (Inl (ValueError (not_callable_message s t)), ctx)
   \<and> sublist t (not_callable_message s t)
   \<and> \<not> callable (NonCallable s t)"
proof -
  have "not_callable_message s t = (''The object '' @ s @ '' of type '') @ t @
      ('' is not callable. '' @ ''This error might occur if you apply adjoint to a list ''
     @ ''of operations instead of a function or template.'')"
    unfolding not_callable_message_def by simp
  then have "sublist t (not_callable_message s t)"
    unfolding sublist_def by blast
  then show ?thesis by simp
qed

text \<open>
  C9, as stated, fails: a procedure that records nothing and only returns a plain
  sequence (a list) of operators is not transformed. The list has no attribute
  \<^verbatim>\<open>operations\<close>, so \<^verbatim>\<open>tape.operations\<close> after \<^verbatim>\<open>tape = res\<close> raises, and the result is
  not the reversed list of wrappers.
\<close>

theorem adjoint_of_returned_list_counterexample:
  "wrapper (return_only
       (PyList [Operator (Gate Hadamard) [] [3], Operator (Gate RY) [0.615] [2]])) () []
     = (Inl AttributeError, [])
   \<and> fst (wrapper (return_only
       (PyList [Operator (Gate Hadamard) [] [3], Operator (Gate RY) [0.615] [2]])) () [])
     \<noteq> Inr (PyList [Adjoint (Operator (Gate RY) [0.615] [2]),
                      Adjoint (Operator (Gate Hadamard) [] [3])])"
  by (simp add: wrapper_def record_fn_def return_only_def)

text \<open>
  C9, amended: when the procedure records nothing and returns a tape (an object with the
  attribute \<^verbatim>\<open>operations\<close>), the operations of the returned tape are transformed: the
  result and what is recorded on the ambient tape are their Adjoint wrappers, in reverse
  order.
\<close>

theorem adjoint_of_returned_tape:
  assumes "fn args [[]] = (Inr (PyTape ops), [[]])"
  shows "wrapper fn args ctx =
    (Inr (single_or_list (map Adjoint (rev ops))), append_ops (map Adjoint (rev ops)) ctx)"
  by (rule wrapper_returned [where fn = fn and args = args, OF assms])

text \<open>
  C9, amended, at the procedure that only returns the tape of \<open>Hadamard(3)\<close> and
  \<open>RY(0.615, 2)\<close>.
\<close>

theorem adjoint_of_returned_tape_witness:
  "wrapper (return_only
       (PyTape [Operator (Gate Hadamard) [] [3], Operator (Gate RY) [0.615] [2]])) () []
   = (Inr (PyList [Adjoint (Operator (Gate RY) [0.615] [2]),
                   Adjoint (Operator (Gate Hadamard) [] [3])]), [])"
  using adjoint_of_returned_tape [where fn = "return_only
       (PyTape [Operator (Gate Hadamard) [] [3], Operator (Gate RY) [0.615] [2]])"
     and args = "()"
     and ops = "[Operator (Gate Hadamard) [] [3], Operator (Gate RY) [0.615] [2]]"
     and ctx = "[]"]
  by (simp add: single_or_list_def return_only_def)

section \<open>Properties of the quantum-chemistry operators\<close>

lemma exp_half_cis: "exp (\<i> * complex_of_real t / 2) = cis (t / 2)"
  by (simp add: cis_conv_exp)

lemma exp_minus_half_cis: "exp (- (\<i> * complex_of_real t / 2)) = cis (- (t / 2))"
  by (simp add: cis_conv_exp)

lemma dagger_SingleExcitation:
  "SingleExcitation_matrix (- phi) = dagger (SingleExcitation_matrix phi)"
  by (simp add: SingleExcitation_matrix_def dagger_def mat_add_def scalar_mult_def off_diag_def
      Let_def upt_rec)

lemma dagger_SingleExcitationMinus:
  "SingleExcitationMinus_matrix (- phi) = dagger (SingleExcitationMinus_matrix phi)"
  by (simp add: SingleExcitationMinus_matrix_def dagger_def mat_add_def scalar_mult_def
      off_diag_def Let_def upt_rec exp_half_cis exp_minus_half_cis cis_cnj)

lemma dagger_SingleExcitationPlus:
  "SingleExcitationPlus_matrix (- phi) = dagger (SingleExcitationPlus_matrix phi)"
  by (simp add: SingleExcitationPlus_matrix_def dagger_def mat_add_def scalar_mult_def
      off_diag_def Let_def upt_rec exp_half_cis exp_minus_half_cis cis_cnj)

lemma dagger_DoubleExcitation:
  "DoubleExcitation_matrix (- phi) = dagger (DoubleExcitation_matrix phi)"
  by (simp add: DoubleExcitation_matrix_def dagger_def scatter_element_add_def Let_def upt_rec
      numeral_eq_Suc)

lemma dagger_DoubleExcitationPlus:
  "DoubleExcitationPlus_matrix (- phi) = dagger (DoubleExcitationPlus_matrix phi)"
  by (simp add: DoubleExcitationPlus_matrix_def dagger_def scatter_element_add_def Let_def
      upt_rec exp_half_cis exp_minus_half_cis cis_cnj numeral_eq_Suc)

lemma dagger_DoubleExcitationMinus:
  "DoubleExcitationMinus_matrix (- phi) = dagger (DoubleExcitationMinus_matrix phi)"
  by (simp add: DoubleExcitationMinus_matrix_def dagger_def scatter_element_add_def Let_def
      upt_rec exp_half_cis exp_minus_half_cis cis_cnj numeral_eq_Suc)

lemma dagger_OrbitalRotation:
  "OrbitalRotation_matrix (- phi) = dagger (OrbitalRotation_matrix phi)"
  by (simp add: OrbitalRotation_matrix_def dagger_def mat_add_def Let_def upt_rec numeral_eq_Suc)

text \<open>
  C5: for each of the seven classes and every real \<open>phi\<close>, the \<open>adjoint\<close> method gives the
  operator of the same class with the parameter negated, and the matrix at the parameters
  of that operator is the conjugate transpose of the matrix at \<open>phi\<close>.
\<close>

theorem adjoint_matrix_is_conjugate_transpose:
  "\<exists>U. adjoint_method k [phi] wires = Inr (Operator (QChem k) [- phi] wires)
      \<and> matrix k [phi] = Inr U
      \<and> matrix k (op_data (Operator (QChem k) [- phi] wires)) = Inr (dagger U)"
  by (cases k)
     (simp_all add: dagger_SingleExcitation dagger_SingleExcitationMinus
        dagger_SingleExcitationPlus dagger_DoubleExcitation dagger_DoubleExcitationPlus
        dagger_DoubleExcitationMinus dagger_OrbitalRotation)

text \<open>
  C7: \<open>compute_decomposition(1.23, wires=(0, 1))\<close> of \<open>SingleExcitationMinus\<close> is this list
  of nine operators, in this order.
\<close>

theorem SingleExcitationMinus_decomposition_example:
  "compute_decomposition SingleExcitationMinus 1.23 [0, 1] = Inr
     [ Operator (Gate PauliX) [] [0],
       Operator (Gate PauliX) [] [1],
       Operator (Gate ControlledPhaseShift) [- 0.615] [1, 0],
       Operator (Gate PauliX) [] [0],
       Operator (Gate PauliX) [] [1],
       Operator (Gate ControlledPhaseShift) [- 0.615] [0, 1],
       Operator (Gate CNOT) [] [0, 1],
       Operator (Gate CRY) [1.23] [1, 0],
       Operator (Gate CNOT) [] [0, 1] ]"
  by simp

text \<open>
  C8: asked to decompose, \<open>DoubleExcitationPlus\<close> and \<open>DoubleExcitationMinus\<close> give the
  condition "decomposition undefined" to the caller, for every parameter and wires, and
  never a list of operators.
\<close>

theorem DoubleExcitationPlus_Minus_decomposition_undefined:
  "compute_decomposition DoubleExcitationPlus phi wires = Inl DecompositionUndefinedError
   \<and> compute_decomposition DoubleExcitationMinus phi wires = Inl DecompositionUndefinedError
   \<and> compute_decomposition DoubleExcitationPlus phi wires \<noteq> Inr ops
   \<and> compute_decomposition DoubleExcitationMinus phi wires \<noteq> Inr ops"
  by (simp add: decomposition_undefined_def)

text \<open>
  C10: in a store whose identities in use lie below the next one, calling \<open>adjoint\<close> on an
  object of one of the seven classes returns a new identity, distinct from the receiver
  and not in use before, that holds the operator with the parameter negated; the receiver
  holds the kind, parameters and wires it held before, and no other object changes.
\<close>

theorem adjoint_call_leaves_receiver:
  assumes "objects s self = Some (Operator (QChem k) [phi] wires)"
    and "\<forall>a \<in> dom (objects s). a < next_id s"
  shows "\<exists>new s'. adjoint_call self s = Some (Inr new, s')
      \<and> new \<noteq> self \<and> new \<notin> dom (objects s)
      \<and> objects s' new = Some (Operator (QChem k) [- phi] wires)
      \<and> objects s' self = Some (Operator (QChem k) [phi] wires)
      \<and> objects s' = (objects s)(new \<mapsto> Operator (QChem k) [- phi] wires)"
proof -
  have fresh: "next_id s \<notin> dom (objects s)"
    using assms(2) by auto
  then have ne: "next_id s \<noteq> self"
    using assms(1) by auto
  have "adjoint_method k [phi] wires = Inr (Operator (QChem k) [- phi] wires)"
    by (cases k) simp_all
  then show ?thesis
    using assms(1) fresh ne by (simp add: adjoint_call_def new_object_def)
qed

text \<open>C10, at a store that holds one \<open>OrbitalRotation(1.23)\<close> on wires 0 to 3.\<close>

theorem adjoint_call_leaves_receiver_witness:
  "\<exists>new s'. adjoint_call 0
        \<lparr>objects = [0 \<mapsto> Operator (QChem OrbitalRotation) [1.23] [0, 1, 2, 3]],
         next_id = 1, recording = [[0]]\<rparr> = Some (Inr new, s')
      \<and> new \<noteq> 0
      \<and> objects s' new = Some (Operator (QChem OrbitalRotation) [- 1.23] [0, 1, 2, 3])
      \<and> objects s' 0 = Some (Operator (QChem OrbitalRotation) [1.23] [0, 1, 2, 3])"
  using adjoint_call_leaves_receiver [where self = 0 and k = OrbitalRotation and phi = "1.23"
      and wires = "[0, 1, 2, 3]"
      and s = "\<lparr>objects = [0 \<mapsto> Operator (QChem OrbitalRotation) [1.23] [0, 1, 2, 3]],
                next_id = 1, recording = [[0]]\<rparr>"]
  by auto

section \<open>The decompositions against the matrices\<close>

text \<open>
  The definitions above against their usual statements: an entry of \<open>mat_mul A B\<close> is the
  sum over \<open>k\<close> of \<open>A i k\<close> times \<open>B k j\<close>, and a one-wire or two-wire matrix placed on a
  register of two wires is its Kronecker product with the identity, or itself with the
  two wires exchanged.
\<close>

lemma lincomb_nth:
  assumes "length xs = length bs" and "\<forall>b \<in> set bs. length b = length acc"
    and "j < length acc"
  shows "lincomb xs bs acc ! j = acc ! j + (\<Sum>k<length bs. xs ! k * bs ! k ! j)"
  using assms
proof (induction xs bs arbitrary: acc rule: list_induct2)
  case Nil
  then show ?case by simp
next
  case (Cons x xs b bs)
  have len: "length (axpy x b acc) = length acc"
    using Cons.prems by (simp add: axpy_def)
  have head: "axpy x b acc ! j = acc ! j + x * b ! j"
    using Cons.prems by (simp add: axpy_def)
  have "lincomb xs bs (axpy x b acc) ! j
      = axpy x b acc ! j + (\<Sum>k<length bs. xs ! k * bs ! k ! j)"
    using Cons.IH [of "axpy x b acc"] Cons.prems len by simp
  moreover have "(\<Sum>k<length (b # bs). (x # xs) ! k * (b # bs) ! k ! j)
      = x * b ! j + (\<Sum>k<length bs. xs ! k * bs ! k ! j)"
    using sum.lessThan_Suc_shift [of "\<lambda>k. (x # xs) ! k * (b # bs) ! k ! j" "length bs"]
    by simp
  ultimately show ?case
    using head by simp
qed

lemma mat_mul_entry:
  assumes "i < length A" and "length (A ! i) = length B" and "B \<noteq> []"
    and "\<forall>b \<in> set B. length b = n" and "j < n"
  shows "mat_mul A B ! i ! j = (\<Sum>k<length B. A ! i ! k * B ! k ! j)"
proof (cases B)
  case Nil
  then show ?thesis using assms by simp
next
  case (Cons b bs)
  then have n: "length b = n" using assms(4) by simp
  have "lincomb (A ! i) B (replicate n 0) ! j
      = replicate n 0 ! j + (\<Sum>k<length B. A ! i ! k * B ! k ! j)"
    using assms by (intro lincomb_nth) simp_all
  then show ?thesis
    using assms(1,5) Cons n by (simp add: mat_mul_def)
qed

lemma embed_matrix_single_wire:
  "embed_matrix 2 [0] [[a, b], [c, d]]
     = [[a, 0, b, 0], [0, a, 0, b], [c, 0, d, 0], [0, c, 0, d]]"
  "embed_matrix 2 [Suc 0] [[a, b], [c, d]]
     = [[a, b, 0, 0], [c, d, 0, 0], [0, 0, a, b], [0, 0, c, d]]"
  by (simp_all add: embed_matrix_def rest_bits_def sub_index_def bit_at_def upt_rec)

lemma embed_matrix_two_wires:
  "embed_matrix 2 [0, Suc 0] [[a0, a1, a2, a3], [b0, b1, b2, b3], [c0, c1, c2, c3], [d0, d1, d2, d3]]
     = [[a0, a1, a2, a3], [b0, b1, b2, b3], [c0, c1, c2, c3], [d0, d1, d2, d3]]"
  "embed_matrix 2 [Suc 0, 0] [[a0, a1, a2, a3], [b0, b1, b2, b3], [c0, c1, c2, c3], [d0, d1, d2, d3]]
     = [[a0, a2, a1, a3], [c0, c2, c1, c3], [b0, b2, b1, b3], [d0, d2, d1, d3]]"
  by (simp_all add: embed_matrix_def rest_bits_def sub_index_def bit_at_def upt_rec)

lemma wire_position_nth:
  "distinct wires \<Longrightarrow> i < length wires \<Longrightarrow> wire_position wires (wires ! i) = Inr i"
proof (induction wires arbitrary: i)
  case Nil
  then show ?case by simp
next
  case (Cons x xs)
  show ?case
  proof (cases i)
    case 0
    then show ?thesis by simp
  next
    case (Suc j)
    with Cons.prems have "j < length xs" and "xs ! j \<in> set xs" and "x \<notin> set xs"
      by auto
    then have "x \<noteq> xs ! j" by auto
    moreover have "wire_position xs (xs ! j) = Inr j"
      using Cons.IH Cons.prems Suc by simp
    ultimately show ?thesis using Suc by simp
  qed
qed

lemma embed_on_one:
  assumes "distinct wires" and "i < length wires" and "length g = 2"
  shows "embed_on wires [wires ! i] g = Inr (embed_matrix (length wires) [i] g)"
  using assms by (simp add: embed_on_def wire_position_nth)

lemma embed_on_two:
  assumes "distinct wires" and "i < length wires" and "j < length wires" and "i \<noteq> j"
    and "length g = 4"
  shows "embed_on wires [wires ! i, wires ! j] g = Inr (embed_matrix (length wires) [i, j] g)"
  using assms by (simp add: embed_on_def wire_position_nth)

lemma identity_4:
  "identity_matrix 4 = [[1, 0, 0, 0], [0, 1, 0, 0], [0, 0, 1, 0], [0, 0, 0, 1]]"
  by (simp add: identity_matrix_def numeral_eq_Suc)

lemma axpy_Cons [simp]: "axpy x (bj # b) (aj # acc) = (aj + x * bj) # axpy x b acc"
  by (simp add: axpy_def)

lemma axpy_Nil [simp]: "axpy x [] [] = []"
  by (simp add: axpy_def)

lemma axpy_zero [simp]: "length acc = length b \<Longrightarrow> axpy 0 b acc = acc"
  unfolding axpy_def by (induction acc b rule: list_induct2) simp_all

lemmas embed_eval =
  apply_gates_def embed_matrix_def rest_bits_def sub_index_def bit_at_def upt_rec mat_mul_def

lemma SingleExcitation_literal:
  "SingleExcitation_matrix phi =
     [[1, 0, 0, 0],
      [0, complex_of_real (cos (phi / 2)), - complex_of_real (sin (phi / 2)), 0],
      [0, complex_of_real (sin (phi / 2)), complex_of_real (cos (phi / 2)), 0],
      [0, 0, 0, 1]]"
  by (simp add: SingleExcitation_matrix_def mat_add_def scalar_mult_def off_diag_def Let_def)

lemma SingleExcitation_circuit:
  "apply_gates
     [embed_matrix 2 [0, Suc 0] [[1, 0, 0, 0], [0, 1, 0, 0], [0, 0, 0, 1], [0, 0, 1, 0]],
      embed_matrix 2 [Suc 0, 0] [[1, 0, 0, 0], [0, 1, 0, 0], [0, 0, c, - s], [0, 0, s, c]],
      embed_matrix 2 [0, Suc 0] [[1, 0, 0, 0], [0, 1, 0, 0], [0, 0, 0, 1], [0, 0, 1, 0]]]
     (identity_matrix 4)
   = [[1, 0, 0, 0], [0, c, - s, 0], [0, s, c, 0], [0, 0, 0, 1]]"
  unfolding identity_4 by (simp add: embed_eval)

lemma SingleExcitation_product:
  assumes "distinct wires" and "length wires = 2"
  shows "matrix_product wires
     [ Operator (Gate CNOT) [] [wires ! 0, wires ! 1],
       Operator (Gate CRY) [phi] [wires ! 1, wires ! 0],
       Operator (Gate CNOT) [] [wires ! 0, wires ! 1] ] = Inr (SingleExcitation_matrix phi)"
  using assms
  by (simp add: matrix_product_def embed_on_two Let_def SingleExcitation_circuit
      SingleExcitation_literal)

lemma SingleExcitation_sign_circuit:
  "apply_gates
     [embed_matrix 2 [0] [[0, 1], [1, 0]],
      embed_matrix 2 [Suc 0] [[0, 1], [1, 0]],
      embed_matrix 2 [Suc 0, 0] [[1, 0, 0, 0], [0, 1, 0, 0], [0, 0, 1, 0], [0, 0, 0, e]],
      embed_matrix 2 [0] [[0, 1], [1, 0]],
      embed_matrix 2 [Suc 0] [[0, 1], [1, 0]],
      embed_matrix 2 [0, Suc 0] [[1, 0, 0, 0], [0, 1, 0, 0], [0, 0, 1, 0], [0, 0, 0, e]],
      embed_matrix 2 [0, Suc 0] [[1, 0, 0, 0], [0, 1, 0, 0], [0, 0, 0, 1], [0, 0, 1, 0]],
      embed_matrix 2 [Suc 0, 0] [[1, 0, 0, 0], [0, 1, 0, 0], [0, 0, c, - s], [0, 0, s, c]],
      embed_matrix 2 [0, Suc 0] [[1, 0, 0, 0], [0, 1, 0, 0], [0, 0, 0, 1], [0, 0, 1, 0]]]
     (identity_matrix 4)
   = [[e, 0, 0, 0], [0, c, - s, 0], [0, s, c, 0], [0, 0, 0, e]]"
  unfolding identity_4 by (simp add: embed_eval)

lemma SingleExcitationMinus_literal:
  "SingleExcitationMinus_matrix phi =
     [[cis (- (phi / 2)), 0, 0, 0],
      [0, complex_of_real (cos (phi / 2)), - complex_of_real (sin (phi / 2)), 0],
      [0, complex_of_real (sin (phi / 2)), complex_of_real (cos (phi / 2)), 0],
      [0, 0, 0, cis (- (phi / 2))]]"
  by (simp add: SingleExcitationMinus_matrix_def mat_add_def scalar_mult_def off_diag_def
      Let_def exp_minus_half_cis)

lemma SingleExcitationPlus_literal:
  "SingleExcitationPlus_matrix phi =
     [[cis (phi / 2), 0, 0, 0],
      [0, complex_of_real (cos (phi / 2)), - complex_of_real (sin (phi / 2)), 0],
      [0, complex_of_real (sin (phi / 2)), complex_of_real (cos (phi / 2)), 0],
      [0, 0, 0, cis (phi / 2)]]"
  by (simp add: SingleExcitationPlus_matrix_def mat_add_def scalar_mult_def off_diag_def
      Let_def exp_half_cis)

lemma exp_i_cis: "exp (\<i> * complex_of_real t) = cis t"
  by (simp add: cis_conv_exp)

lemma SingleExcitationMinus_product:
  assumes "distinct wires" and "length wires = 2"
  shows "matrix_product wires
     [ Operator (Gate PauliX) [] [wires ! 0],
       Operator (Gate PauliX) [] [wires ! 1],
       Operator (Gate ControlledPhaseShift) [- phi / 2] [wires ! 1, wires ! 0],
       Operator (Gate PauliX) [] [wires ! 0],
       Operator (Gate PauliX) [] [wires ! 1],
       Operator (Gate ControlledPhaseShift) [- phi / 2] [wires ! 0, wires ! 1],
       Operator (Gate CNOT) [] [wires ! 0, wires ! 1],
       Operator (Gate CRY) [phi] [wires ! 1, wires ! 0],
       Operator (Gate CNOT) [] [wires ! 0, wires ! 1] ]
     = Inr (SingleExcitationMinus_matrix phi)"
  using assms
  by (simp add: matrix_product_def embed_on_one embed_on_two Let_def exp_i_cis
      SingleExcitation_sign_circuit SingleExcitationMinus_literal)

lemma SingleExcitationPlus_product:
  assumes "distinct wires" and "length wires = 2"
  shows "matrix_product wires
     [ Operator (Gate PauliX) [] [wires ! 0],
       Operator (Gate PauliX) [] [wires ! 1],
       Operator (Gate ControlledPhaseShift) [phi / 2] [wires ! 1, wires ! 0],
       Operator (Gate PauliX) [] [wires ! 0],
       Operator (Gate PauliX) [] [wires ! 1],
       Operator (Gate ControlledPhaseShift) [phi / 2] [wires ! 0, wires ! 1],
       Operator (Gate CNOT) [] [wires ! 0, wires ! 1],
       Operator (Gate CRY) [phi] [wires ! 1, wires ! 0],
       Operator (Gate CNOT) [] [wires ! 0, wires ! 1] ]
     = Inr (SingleExcitationPlus_matrix phi)"
  using assms
  by (simp add: matrix_product_def embed_on_one embed_on_two Let_def exp_i_cis
      SingleExcitation_sign_circuit SingleExcitationPlus_literal)

lemma hpoly_add: "length as = length bs \<Longrightarrow>
   hpoly C S as + hpoly C S bs = hpoly C S (map2 (+) as bs)"
proof (induction as bs rule: list_induct2)
  case Nil
  then show ?case by simp
next
  case (Cons a as b bs)
  show ?case using Cons.IH [symmetric] Cons.hyps by (simp add: algebra_simps)
qed

lemma hpoly_diff: "length as = length bs \<Longrightarrow>
   hpoly C S as - hpoly C S bs = hpoly C S (map2 (-) as bs)"
proof (induction as bs rule: list_induct2)
  case Nil
  then show ?case by simp
next
  case (Cons a as b bs)
  have "C * hpoly C S (map2 (-) as bs) = C * hpoly C S as - C * hpoly C S bs"
    using Cons.IH by (simp add: algebra_simps)
  then show ?case using Cons.hyps by (simp add: algebra_simps)
qed

lemma hpoly_neg: "- hpoly C S as = hpoly C S (map uminus as)"
proof (induction as)
  case Nil
  then show ?case by simp
next
  case (Cons a as)
  show ?case using Cons.IH [symmetric] by (simp add: algebra_simps)
qed

lemma hpoly_mulS: "S * hpoly C S as = hpoly C S (as @ [0])"
  by (induction as) (simp_all add: algebra_simps)

lemma nf_add: "length as = length bs \<Longrightarrow>
   nf R C S k as + nf R C S k bs = nf R C S k (map2 (+) as bs)"
  by (simp add: nf_def hpoly_add [symmetric] algebra_simps)

lemma nf_diff: "length as = length bs \<Longrightarrow>
   nf R C S k as - nf R C S k bs = nf R C S k (map2 (-) as bs)"
  by (simp add: nf_def hpoly_diff [symmetric] algebra_simps)

lemma nf_neg: "- nf R C S k as = nf R C S k (map uminus as)"
  by (simp add: nf_def hpoly_neg [symmetric])

lemma nf_mulC: "C * nf R C S k as = nf R C S k (0 # as)"
  by (simp add: nf_def algebra_simps)

lemma nf_mulS: "S * nf R C S k as = nf R C S k (as @ [0])"
  by (simp add: nf_def hpoly_mulS [symmetric] algebra_simps)

lemma nf_mulR: "R * nf R C S k as = nf R C S (Suc k) as"
  by (simp add: nf_def algebra_simps)

lemmas nf_simps = nf_add nf_diff nf_neg nf_mulC nf_mulS nf_mulR

lemma identity_16:
  "identity_matrix 16 = map (map (\<lambda>b. nf R C S 0 [b]))
      [[1, 0, 0, 0, 0, 0, 0, 0, 0, 0, 0, 0, 0, 0, 0, 0],
       [0, 1, 0, 0, 0, 0, 0, 0, 0, 0, 0, 0, 0, 0, 0, 0],
       [0, 0, 1, 0, 0, 0, 0, 0, 0, 0, 0, 0, 0, 0, 0, 0],
       [0, 0, 0, 1, 0, 0, 0, 0, 0, 0, 0, 0, 0, 0, 0, 0],
       [0, 0, 0, 0, 1, 0, 0, 0, 0, 0, 0, 0, 0, 0, 0, 0],
       [0, 0, 0, 0, 0, 1, 0, 0, 0, 0, 0, 0, 0, 0, 0, 0],
       [0, 0, 0, 0, 0, 0, 1, 0, 0, 0, 0, 0, 0, 0, 0, 0],
       [0, 0, 0, 0, 0, 0, 0, 1, 0, 0, 0, 0, 0, 0, 0, 0],
       [0, 0, 0, 0, 0, 0, 0, 0, 1, 0, 0, 0, 0, 0, 0, 0],
       [0, 0, 0, 0, 0, 0, 0, 0, 0, 1, 0, 0, 0, 0, 0, 0],
       [0, 0, 0, 0, 0, 0, 0, 0, 0, 0, 1, 0, 0, 0, 0, 0],
       [0, 0, 0, 0, 0, 0, 0, 0, 0, 0, 0, 1, 0, 0, 0, 0],
       [0, 0, 0, 0, 0, 0, 0, 0, 0, 0, 0, 0, 1, 0, 0, 0],
       [0, 0, 0, 0, 0, 0, 0, 0, 0, 0, 0, 0, 0, 1, 0, 0],
       [0, 0, 0, 0, 0, 0, 0, 0, 0, 0, 0, 0, 0, 0, 1, 0],
       [0, 0, 0, 0, 0, 0, 0, 0, 0, 0, 0, 0, 0, 0, 0, 1]]"
  by (simp add: identity_matrix_def numeral_eq_Suc nf_def)

lemma OrbitalRotation_circuit:
  assumes "nf R C S (Suc (Suc (Suc (Suc 0)))) [4, 0, 8, 0, 4] = 1"
    and "nf R C S (Suc (Suc (Suc (Suc 0)))) [0, 0, 0, 0, 0] = 0"
    and "nf R C S (Suc (Suc (Suc (Suc 0)))) [- 4, 0, 0, 0, 4] = c"
    and "nf R C S (Suc (Suc (Suc (Suc 0)))) [4, 0, - 8, 0, 4] = c ^ 2"
    and "nf R C S (Suc (Suc (Suc (Suc 0)))) [0, 8, 0, 8, 0] = s"
    and "nf R C S (Suc (Suc (Suc (Suc 0)))) [0, - 8, 0, - 8, 0] = - s"
    and "nf R C S (Suc (Suc (Suc (Suc 0)))) [0, - 8, 0, 8, 0] = c * s"
    and "nf R C S (Suc (Suc (Suc (Suc 0)))) [0, 8, 0, - 8, 0] = - (c * s)"
    and "nf R C S (Suc (Suc (Suc (Suc 0)))) [0, 0, 16, 0, 0] = s * s"
    and "nf R C S (Suc (Suc (Suc (Suc 0)))) [0, 0, - 16, 0, 0] = - (s * s)"
  shows "apply_gates
     [embed_matrix 4 [3] [[R, R], [R, - R]],
      embed_matrix 4 [2] [[R, R], [R, - R]],
      embed_matrix 4 [3, Suc 0] [[1, 0, 0, 0], [0, 1, 0, 0], [0, 0, 0, 1], [0, 0, 1, 0]],
      embed_matrix 4 [2, 0] [[1, 0, 0, 0], [0, 1, 0, 0], [0, 0, 0, 1], [0, 0, 1, 0]],
      embed_matrix 4 [3] [[C, - S], [S, C]],
      embed_matrix 4 [2] [[C, - S], [S, C]],
      embed_matrix 4 [Suc 0] [[C, - S], [S, C]],
      embed_matrix 4 [0] [[C, - S], [S, C]],
      embed_matrix 4 [3, Suc 0] [[1, 0, 0, 0], [0, 1, 0, 0], [0, 0, 0, 1], [0, 0, 1, 0]],
      embed_matrix 4 [2, 0] [[1, 0, 0, 0], [0, 1, 0, 0], [0, 0, 0, 1], [0, 0, 1, 0]],
      embed_matrix 4 [3] [[R, R], [R, - R]],
      embed_matrix 4 [2] [[R, R], [R, - R]]]
     (identity_matrix 16)
   = mat_add (diag [1, c, c, c ^ 2, c, 1, c ^ 2, c, c, c ^ 2, 1, c, c ^ 2, c, c, 1])
          [ replicate 16 0,
            [0, 0, 0, 0, - s, 0, 0, 0, 0, 0, 0, 0, 0, 0, 0, 0],
            [0, 0, 0, 0, 0, 0, 0, 0, - s, 0, 0, 0, 0, 0, 0, 0],
            [0, 0, 0, 0, 0, 0, - c * s, 0, 0, - c * s, 0, 0, s * s, 0, 0, 0],
            [0, s, 0, 0, 0, 0, 0, 0, 0, 0, 0, 0, 0, 0, 0, 0],
            replicate 16 0,
            [0, 0, 0, c * s, 0, 0, 0, 0, 0, - s * s, 0, 0, - c * s, 0, 0, 0],
            [0, 0, 0, 0, 0, 0, 0, 0, 0, 0, 0, 0, 0, - s, 0, 0],
            [0, 0, s, 0, 0, 0, 0, 0, 0, 0, 0, 0, 0, 0, 0, 0],
            [0, 0, 0, c * s, 0, 0, - s * s, 0, 0, 0, 0, 0, - c * s, 0, 0, 0],
            replicate 16 0,
            [0, 0, 0, 0, 0, 0, 0, 0, 0, 0, 0, 0, 0, 0, - s, 0],
            [0, 0, 0, s * s, 0, 0, c * s, 0, 0, c * s, 0, 0, 0, 0, 0, 0],
            [0, 0, 0, 0, 0, 0, 0, s, 0, 0, 0, 0, 0, 0, 0, 0],
            [0, 0, 0, 0, 0, 0, 0, 0, 0, 0, 0, s, 0, 0, 0, 0],
            replicate 16 0 ]"
proof -
  have zeros: "replicate 16 (0::complex) = [0, 0, 0, 0, 0, 0, 0, 0, 0, 0, 0, 0, 0, 0, 0, 0]"
    by (simp add: numeral_eq_Suc)
  show ?thesis
    unfolding zeros identity_16 [of R C S]
    by (simp add: embed_eval nf_simps mat_add_def assms)
qed

lemma inv_sqrt2_square: "inv_sqrt2 ^ 2 = 1 / 2"
proof -
  have "(1 / sqrt 2) ^ 2 = (1 / 2 :: real)"
    by (simp add: power_divide)
  then show ?thesis
    unfolding inv_sqrt2_def by (metis of_real_power of_real_divide of_real_1 of_real_numeral)
qed

lemma inv_sqrt2_4: "inv_sqrt2 ^ 4 = 1 / 4"
proof -
  have "inv_sqrt2 ^ 4 = (inv_sqrt2 ^ 2) ^ 2" by (simp flip: power_mult)
  then show ?thesis by (simp add: inv_sqrt2_square power_divide)
qed

lemma inv_sqrt2_6: "inv_sqrt2 ^ 6 = 1 / 8"
proof -
  have "inv_sqrt2 ^ 6 = (inv_sqrt2 ^ 2) ^ 3" by (simp flip: power_mult)
  then show ?thesis by (simp add: inv_sqrt2_square power_divide)
qed

lemma double_angle_complex:
  fixes x :: real
  defines "C \<equiv> complex_of_real (cos x)" and "S \<equiv> complex_of_real (sin x)"
  shows "C ^ 2 + S ^ 2 = 1"
    and "complex_of_real (cos (2 * x)) = C ^ 2 - S ^ 2"
    and "complex_of_real (sin (2 * x)) = 2 * S * C"
proof -
  have "(cos x) ^ 2 + (sin x) ^ 2 = 1" by simp
  then show "C ^ 2 + S ^ 2 = 1"
    unfolding C_def S_def by (metis of_real_add of_real_power of_real_1)
  show "complex_of_real (cos (2 * x)) = C ^ 2 - S ^ 2"
    unfolding C_def S_def by (simp add: cos_double)
  show "complex_of_real (sin (2 * x)) = 2 * S * C"
    unfolding C_def S_def by (simp add: sin_double)
qed

lemma OrbitalRotation_values:
  fixes phi :: real
  defines "C \<equiv> complex_of_real (cos (phi / 4))" and "S \<equiv> complex_of_real (sin (phi / 4))"
    and "c \<equiv> complex_of_real (cos (phi / 2))" and "s \<equiv> complex_of_real (sin (phi / 2))"
  shows "nf inv_sqrt2 C S (Suc (Suc (Suc (Suc 0)))) [4, 0, 8, 0, 4] = 1"
    and "nf inv_sqrt2 C S (Suc (Suc (Suc (Suc 0)))) [0, 0, 0, 0, 0] = 0"
    and "nf inv_sqrt2 C S (Suc (Suc (Suc (Suc 0)))) [- 4, 0, 0, 0, 4] = c"
    and "nf inv_sqrt2 C S (Suc (Suc (Suc (Suc 0)))) [4, 0, - 8, 0, 4] = c ^ 2"
    and "nf inv_sqrt2 C S (Suc (Suc (Suc (Suc 0)))) [0, 8, 0, 8, 0] = s"
    and "nf inv_sqrt2 C S (Suc (Suc (Suc (Suc 0)))) [0, - 8, 0, - 8, 0] = - s"
    and "nf inv_sqrt2 C S (Suc (Suc (Suc (Suc 0)))) [0, - 8, 0, 8, 0] = c * s"
    and "nf inv_sqrt2 C S (Suc (Suc (Suc (Suc 0)))) [0, 8, 0, - 8, 0] = - (c * s)"
    and "nf inv_sqrt2 C S (Suc (Suc (Suc (Suc 0)))) [0, 0, 16, 0, 0] = s * s"
    and "nf inv_sqrt2 C S (Suc (Suc (Suc (Suc 0)))) [0, 0, - 16, 0, 0] = - (s * s)"
proof -
  have one: "C ^ 2 + S ^ 2 = 1" and c: "c = C ^ 2 - S ^ 2" and s: "s = 2 * S * C"
    using double_angle_complex [of "phi / 4"] unfolding C_def S_def c_def s_def by simp_all
  have R: "inv_sqrt2 ^ 4 = 1 / 4" by (rule inv_sqrt2_4)
  have pow: "Suc (Suc (Suc (Suc 0))) = 4" by simp
  show "nf inv_sqrt2 C S (Suc (Suc (Suc (Suc 0)))) [0, 0, 0, 0, 0] = 0"
    unfolding nf_def by simp
  have "hpoly C S [4, 0, 8, 0, 4] = 4 * ((C ^ 2 + S ^ 2) ^ 2)"
    by (simp add: eval_nat_numeral, algebra?)
  then show "nf inv_sqrt2 C S (Suc (Suc (Suc (Suc 0)))) [4, 0, 8, 0, 4] = 1"
    unfolding nf_def pow R c s one by simp
  have "hpoly C S [- 4, 0, 0, 0, 4] = 4 * ((C ^ 2 - S ^ 2) * (C ^ 2 + S ^ 2))"
    by (simp add: eval_nat_numeral, algebra?)
  then show "nf inv_sqrt2 C S (Suc (Suc (Suc (Suc 0)))) [- 4, 0, 0, 0, 4] = c"
    unfolding nf_def pow R c s one by simp
  have "hpoly C S [4, 0, - 8, 0, 4] = 4 * ((C ^ 2 - S ^ 2) ^ 2)"
    by (simp add: eval_nat_numeral, algebra?)
  then show "nf inv_sqrt2 C S (Suc (Suc (Suc (Suc 0)))) [4, 0, - 8, 0, 4] = c ^ 2"
    unfolding nf_def pow R c s one by simp
  have "hpoly C S [0, 8, 0, 8, 0] = 4 * (2 * S * C * (C ^ 2 + S ^ 2))"
    by (simp add: eval_nat_numeral, algebra?)
  then show "nf inv_sqrt2 C S (Suc (Suc (Suc (Suc 0)))) [0, 8, 0, 8, 0] = s"
    unfolding nf_def pow R c s one by simp
  have "hpoly C S [0, - 8, 0, - 8, 0] = 4 * (- (2 * S * C * (C ^ 2 + S ^ 2)))"
    by (simp add: eval_nat_numeral, algebra?)
  then show "nf inv_sqrt2 C S (Suc (Suc (Suc (Suc 0)))) [0, - 8, 0, - 8, 0] = - s"
    unfolding nf_def pow R c s one by simp
  have "hpoly C S [0, - 8, 0, 8, 0] = 4 * ((C ^ 2 - S ^ 2) * (2 * S * C))"
    by (simp add: eval_nat_numeral, algebra?)
  then show "nf inv_sqrt2 C S (Suc (Suc (Suc (Suc 0)))) [0, - 8, 0, 8, 0] = c * s"
    unfolding nf_def pow R c s one by simp
  have "hpoly C S [0, 8, 0, - 8, 0] = 4 * (- ((C ^ 2 - S ^ 2) * (2 * S * C)))"
    by (simp add: eval_nat_numeral, algebra?)
  then show "nf inv_sqrt2 C S (Suc (Suc (Suc (Suc 0)))) [0, 8, 0, - 8, 0] = - (c * s)"
    unfolding nf_def pow R c s one by simp
  have "hpoly C S [0, 0, 16, 0, 0] = 4 * (2 * S * C * (2 * S * C))"
    by (simp add: eval_nat_numeral, algebra?)
  then show "nf inv_sqrt2 C S (Suc (Suc (Suc (Suc 0)))) [0, 0, 16, 0, 0] = s * s"
    unfolding nf_def pow R c s one by simp
  have "hpoly C S [0, 0, - 16, 0, 0] = 4 * (- (2 * S * C * (2 * S * C)))"
    by (simp add: eval_nat_numeral, algebra?)
  then show "nf inv_sqrt2 C S (Suc (Suc (Suc (Suc 0)))) [0, 0, - 16, 0, 0] = - (s * s)"
    unfolding nf_def pow R c s one by simp
qed

lemma DoubleExcitation_values:
  fixes phi :: real
  defines "C \<equiv> complex_of_real (cos (phi / 16))" and "S \<equiv> complex_of_real (sin (phi / 16))"
    and "c \<equiv> complex_of_real (cos (phi / 2))" and "s \<equiv> complex_of_real (sin (phi / 2))"
  shows "nf inv_sqrt2 C S (Suc (Suc (Suc (Suc (Suc (Suc 0)))))) [8, 0, 32, 0, 48, 0, 32, 0, 8] = 1"
    and "nf inv_sqrt2 C S (Suc (Suc (Suc (Suc (Suc (Suc 0)))))) [0, 0, 0, 0, 0, 0, 0, 0, 0] = 0"
    and "nf inv_sqrt2 C S (Suc (Suc (Suc (Suc (Suc (Suc 0)))))) [8, 0, - 224, 0, 560, 0, - 224, 0, 8] = c"
    and "nf inv_sqrt2 C S (Suc (Suc (Suc (Suc (Suc (Suc 0)))))) [0, - 64, 0, 448, 0, - 448, 0, 64, 0] = s"
    and "nf inv_sqrt2 C S (Suc (Suc (Suc (Suc (Suc (Suc 0)))))) [0, 64, 0, - 448, 0, 448, 0, - 64, 0] = - s"
proof -
  define c2 where "c2 = complex_of_real (cos (phi / 8))"
  define s2 where "s2 = complex_of_real (sin (phi / 8))"
  define c4 where "c4 = complex_of_real (cos (phi / 4))"
  define s4 where "s4 = complex_of_real (sin (phi / 4))"
  have one: "C ^ 2 + S ^ 2 = 1" and c2: "c2 = C ^ 2 - S ^ 2" and s2: "s2 = 2 * S * C"
    using double_angle_complex [of "phi / 16"] unfolding C_def S_def c2_def s2_def by simp_all
  have c4: "c4 = c2 ^ 2 - s2 ^ 2" and s4: "s4 = 2 * s2 * c2"
    using double_angle_complex [of "phi / 8"] unfolding c2_def s2_def c4_def s4_def by simp_all
  have c8: "c = c4 ^ 2 - s4 ^ 2" and s8: "s = 2 * s4 * c4"
    using double_angle_complex [of "phi / 4"] unfolding c_def s_def c4_def s4_def by simp_all
  have R: "inv_sqrt2 ^ 6 = 1 / 8" by (rule inv_sqrt2_6)
  have pow: "Suc (Suc (Suc (Suc (Suc (Suc 0))))) = 6" by simp
  show "nf inv_sqrt2 C S (Suc (Suc (Suc (Suc (Suc (Suc 0)))))) [0, 0, 0, 0, 0, 0, 0, 0, 0] = 0"
    unfolding nf_def by simp
  have "hpoly C S [8, 0, 32, 0, 48, 0, 32, 0, 8] = 8 * (C ^ 2 + S ^ 2) ^ 4"
    by (simp add: eval_nat_numeral, algebra?)
  then show "nf inv_sqrt2 C S (Suc (Suc (Suc (Suc (Suc (Suc 0)))))) [8, 0, 32, 0, 48, 0, 32, 0, 8] = 1"
    unfolding nf_def pow R one by simp
  have "hpoly C S [8, 0, - 224, 0, 560, 0, - 224, 0, 8] = 8 * c"
    unfolding c8 s8 c4 s4 c2 s2 by (simp add: eval_nat_numeral, algebra?)
  then show "nf inv_sqrt2 C S (Suc (Suc (Suc (Suc (Suc (Suc 0)))))) [8, 0, - 224, 0, 560, 0, - 224, 0, 8] = c"
    unfolding nf_def pow R by simp
  have "hpoly C S [0, - 64, 0, 448, 0, - 448, 0, 64, 0] = 8 * s"
    unfolding c8 s8 c4 s4 c2 s2 by (simp add: eval_nat_numeral, algebra?)
  then show "nf inv_sqrt2 C S (Suc (Suc (Suc (Suc (Suc (Suc 0)))))) [0, - 64, 0, 448, 0, - 448, 0, 64, 0] = s"
    unfolding nf_def pow R by simp
  have "hpoly C S [0, 64, 0, - 448, 0, 448, 0, - 64, 0] = - (8 * s)"
    unfolding c8 s8 c4 s4 c2 s2 by (simp add: eval_nat_numeral, algebra?)
  then show "nf inv_sqrt2 C S (Suc (Suc (Suc (Suc (Suc (Suc 0)))))) [0, 64, 0, - 448, 0, 448, 0, - 64, 0] = - s"
    unfolding nf_def pow R by simp
qed

lemma DoubleExcitation_circuit:
  assumes "nf R C S (Suc (Suc (Suc (Suc (Suc (Suc 0)))))) [8, 0, 32, 0, 48, 0, 32, 0, 8] = 1"
    and "nf R C S (Suc (Suc (Suc (Suc (Suc (Suc 0)))))) [0, 0, 0, 0, 0, 0, 0, 0, 0] = 0"
    and "nf R C S (Suc (Suc (Suc (Suc (Suc (Suc 0)))))) [8, 0, - 224, 0, 560, 0, - 224, 0, 8] = c"
    and "nf R C S (Suc (Suc (Suc (Suc (Suc (Suc 0)))))) [0, - 64, 0, 448, 0, - 448, 0, 64, 0] = s"
    and "nf R C S (Suc (Suc (Suc (Suc (Suc (Suc 0)))))) [0, 64, 0, - 448, 0, 448, 0, - 64, 0] = - s"
  shows "apply_gates
     [embed_matrix 4 [2, 3] [[1, 0, 0, 0], [0, 1, 0, 0], [0, 0, 0, 1], [0, 0, 1, 0]],
      embed_matrix 4 [0, 2] [[1, 0, 0, 0], [0, 1, 0, 0], [0, 0, 0, 1], [0, 0, 1, 0]],
      embed_matrix 4 [3] [[R, R], [R, - R]],
      embed_matrix 4 [0] [[R, R], [R, - R]],
      embed_matrix 4 [2, 3] [[1, 0, 0, 0], [0, 1, 0, 0], [0, 0, 0, 1], [0, 0, 1, 0]],
      embed_matrix 4 [0, Suc 0] [[1, 0, 0, 0], [0, 1, 0, 0], [0, 0, 0, 1], [0, 0, 1, 0]],
      embed_matrix 4 [Suc 0] [[C, - S], [S, C]],
      embed_matrix 4 [0] [[C, S], [- S, C]],
      embed_matrix 4 [0, 3] [[1, 0, 0, 0], [0, 1, 0, 0], [0, 0, 0, 1], [0, 0, 1, 0]],
      embed_matrix 4 [3] [[R, R], [R, - R]],
      embed_matrix 4 [3, Suc 0] [[1, 0, 0, 0], [0, 1, 0, 0], [0, 0, 0, 1], [0, 0, 1, 0]],
      embed_matrix 4 [Suc 0] [[C, - S], [S, C]],
      embed_matrix 4 [0] [[C, S], [- S, C]],
      embed_matrix 4 [2, Suc 0] [[1, 0, 0, 0], [0, 1, 0, 0], [0, 0, 0, 1], [0, 0, 1, 0]],
      embed_matrix 4 [2, 0] [[1, 0, 0, 0], [0, 1, 0, 0], [0, 0, 0, 1], [0, 0, 1, 0]],
      embed_matrix 4 [Suc 0] [[C, S], [- S, C]],
      embed_matrix 4 [0] [[C, - S], [S, C]],
      embed_matrix 4 [3, Suc 0] [[1, 0, 0, 0], [0, 1, 0, 0], [0, 0, 0, 1], [0, 0, 1, 0]],
      embed_matrix 4 [3] [[R, R], [R, - R]],
      embed_matrix 4 [0, 3] [[1, 0, 0, 0], [0, 1, 0, 0], [0, 0, 0, 1], [0, 0, 1, 0]],
      embed_matrix 4 [Suc 0] [[C, S], [- S, C]],
      embed_matrix 4 [0] [[C, - S], [S, C]],
      embed_matrix 4 [0, Suc 0] [[1, 0, 0, 0], [0, 1, 0, 0], [0, 0, 0, 1], [0, 0, 1, 0]],
      embed_matrix 4 [2, 0] [[1, 0, 0, 0], [0, 1, 0, 0], [0, 0, 0, 1], [0, 0, 1, 0]],
      embed_matrix 4 [0] [[R, R], [R, - R]],
      embed_matrix 4 [3] [[R, R], [R, - R]],
      embed_matrix 4 [0, 2] [[1, 0, 0, 0], [0, 1, 0, 0], [0, 0, 0, 1], [0, 0, 1, 0]],
      embed_matrix 4 [2, 3] [[1, 0, 0, 0], [0, 1, 0, 0], [0, 0, 0, 1], [0, 0, 1, 0]]]
     (identity_matrix 16)
   = scatter_element_add (scatter_element_add
       (diag (replicate 3 1 @ [c] @ replicate 8 1 @ [c] @ replicate 3 1)) (3, 12) (- s)) (12, 3) s"
proof -
  have rhs: "scatter_element_add (scatter_element_add
       (diag (replicate 3 1 @ [c] @ replicate 8 1 @ [c] @ replicate 3 1)) (3, 12) (- s)) (12, 3) s
     = [[1, 0, 0, 0, 0, 0, 0, 0, 0, 0, 0, 0, 0, 0, 0, 0],
        [0, 1, 0, 0, 0, 0, 0, 0, 0, 0, 0, 0, 0, 0, 0, 0],
        [0, 0, 1, 0, 0, 0, 0, 0, 0, 0, 0, 0, 0, 0, 0, 0],
        [0, 0, 0, c, 0, 0, 0, 0, 0, 0, 0, 0, - s, 0, 0, 0],
        [0, 0, 0, 0, 1, 0, 0, 0, 0, 0, 0, 0, 0, 0, 0, 0],
        [0, 0, 0, 0, 0, 1, 0, 0, 0, 0, 0, 0, 0, 0, 0, 0],
        [0, 0, 0, 0, 0, 0, 1, 0, 0, 0, 0, 0, 0, 0, 0, 0],
        [0, 0, 0, 0, 0, 0, 0, 1, 0, 0, 0, 0, 0, 0, 0, 0],
        [0, 0, 0, 0, 0, 0, 0, 0, 1, 0, 0, 0, 0, 0, 0, 0],
        [0, 0, 0, 0, 0, 0, 0, 0, 0, 1, 0, 0, 0, 0, 0, 0],
        [0, 0, 0, 0, 0, 0, 0, 0, 0, 0, 1, 0, 0, 0, 0, 0],
        [0, 0, 0, 0, 0, 0, 0, 0, 0, 0, 0, 1, 0, 0, 0, 0],
        [0, 0, 0, s, 0, 0, 0, 0, 0, 0, 0, 0, c, 0, 0, 0],
        [0, 0, 0, 0, 0, 0, 0, 0, 0, 0, 0, 0, 0, 1, 0, 0],
        [0, 0, 0, 0, 0, 0, 0, 0, 0, 0, 0, 0, 0, 0, 1, 0],
        [0, 0, 0, 0, 0, 0, 0, 0, 0, 0, 0, 0, 0, 0, 0, 1]]"
    by (simp add: scatter_element_add_def numeral_eq_Suc)
  show ?thesis
    unfolding rhs identity_16 [of R C S]
    by (simp add: embed_eval nf_simps assms)
qed

lemma OrbitalRotation_product:
  assumes "distinct wires" and "length wires = 4"
  shows "matrix_product wires
     [ Operator (Gate Hadamard) [] [wires ! 3],
       Operator (Gate Hadamard) [] [wires ! 2],
       Operator (Gate CNOT) [] [wires ! 3, wires ! 1],
       Operator (Gate CNOT) [] [wires ! 2, wires ! 0],
       Operator (Gate RY) [phi / 2] [wires ! 3],
       Operator (Gate RY) [phi / 2] [wires ! 2],
       Operator (Gate RY) [phi / 2] [wires ! 1],
       Operator (Gate RY) [phi / 2] [wires ! 0],
       Operator (Gate CNOT) [] [wires ! 3, wires ! 1],
       Operator (Gate CNOT) [] [wires ! 2, wires ! 0],
       Operator (Gate Hadamard) [] [wires ! 3],
       Operator (Gate Hadamard) [] [wires ! 2] ]
     = Inr (OrbitalRotation_matrix phi)"
  using assms
  by (simp add: matrix_product_def embed_on_one embed_on_two Let_def
      OrbitalRotation_circuit [OF OrbitalRotation_values] OrbitalRotation_matrix_def)

lemma DoubleExcitation_product:
  assumes "distinct wires" and "length wires = 4"
  shows "matrix_product wires
     [ Operator (Gate CNOT) [] [wires ! 2, wires ! 3],
       Operator (Gate CNOT) [] [wires ! 0, wires ! 2],
       Operator (Gate Hadamard) [] [wires ! 3],
       Operator (Gate Hadamard) [] [wires ! 0],
       Operator (Gate CNOT) [] [wires ! 2, wires ! 3],
       Operator (Gate CNOT) [] [wires ! 0, wires ! 1],
       Operator (Gate RY) [phi / 8] [wires ! 1],
       Operator (Gate RY) [- phi / 8] [wires ! 0],
       Operator (Gate CNOT) [] [wires ! 0, wires ! 3],
       Operator (Gate Hadamard) [] [wires ! 3],
       Operator (Gate CNOT) [] [wires ! 3, wires ! 1],
       Operator (Gate RY) [phi / 8] [wires ! 1],
       Operator (Gate RY) [- phi / 8] [wires ! 0],
       Operator (Gate CNOT) [] [wires ! 2, wires ! 1],
       Operator (Gate CNOT) [] [wires ! 2, wires ! 0],
       Operator (Gate RY) [- phi / 8] [wires ! 1],
       Operator (Gate RY) [phi / 8] [wires ! 0],
       Operator (Gate CNOT) [] [wires ! 3, wires ! 1],
       Operator (Gate Hadamard) [] [wires ! 3],
       Operator (Gate CNOT) [] [wires ! 0, wires ! 3],
       Operator (Gate RY) [- phi / 8] [wires ! 1],
       Operator (Gate RY) [phi / 8] [wires ! 0],
       Operator (Gate CNOT) [] [wires ! 0, wires ! 1],
       Operator (Gate CNOT) [] [wires ! 2, wires ! 0],
       Operator (Gate Hadamard) [] [wires ! 0],
       Operator (Gate Hadamard) [] [wires ! 3],
       Operator (Gate CNOT) [] [wires ! 0, wires ! 2],
       Operator (Gate CNOT) [] [wires ! 2, wires ! 3] ]
     = Inr (DoubleExcitation_matrix phi)"
  using assms
  by (simp add: matrix_product_def embed_on_one embed_on_two Let_def
      DoubleExcitation_circuit [OF DoubleExcitation_values] DoubleExcitation_matrix_def)

text \<open>
  C6: for each of the five classes that define \<open>compute_decomposition\<close>, every real
  \<open>phi\<close> (so 1.23 and 0) and all distinct wires, the decomposition is returned and the
  product of the matrices of its operators, the first operator applied first, is the
  matrix of the class at \<open>phi\<close>: equal, so equal up to a global phase, the phase being 1.
\<close>

theorem decomposition_product_is_matrix:
  assumes "distinct wires" and "length wires = num_wires k"
    and "k \<noteq> DoubleExcitationPlus" and "k \<noteq> DoubleExcitationMinus"
  shows "\<exists>ops U. compute_decomposition k phi wires = Inr ops
       \<and> matrix k [phi] = Inr U
       \<and> matrix_product wires ops = Inr U"
proof (cases k)
  case SingleExcitation
  then have len: "length wires = 2" using assms(2) by simp
  show ?thesis
    using SingleExcitation_product [OF assms(1) len, of phi] len
    by (simp add: SingleExcitation)
next
  case SingleExcitationMinus
  then have len: "length wires = 2" using assms(2) by simp
  show ?thesis
    using SingleExcitationMinus_product [OF assms(1) len, of phi] len
    by (simp add: SingleExcitationMinus)
next
  case SingleExcitationPlus
  then have len: "length wires = 2" using assms(2) by simp
  show ?thesis
    using SingleExcitationPlus_product [OF assms(1) len, of phi] len
    by (simp add: SingleExcitationPlus)
next
  case DoubleExcitation
  then have len: "length wires = 4" using assms(2) by simp
  show ?thesis
    using DoubleExcitation_product [OF assms(1) len, of phi] len
    by (simp add: DoubleExcitation)
next
  case DoubleExcitationPlus
  then show ?thesis using assms(3) by simp
next
  case DoubleExcitationMinus
  then show ?thesis using assms(4) by simp
next
  case OrbitalRotation
  then have len: "length wires = 4" using assms(2) by simp
  show ?thesis
    using OrbitalRotation_product [OF assms(1) len, of phi] len
    by (simp add: OrbitalRotation)
qed

text \<open>
  C6, at \<open>SingleExcitationMinus\<close> with \<open>phi = 1.23\<close> on wires 0 and 1, and at
  \<open>DoubleExcitation\<close> with \<open>phi = 0\<close> on wires 0 to 3.
\<close>

theorem decomposition_product_is_matrix_witness:
  "(\<exists>ops. compute_decomposition SingleExcitationMinus 1.23 [0, 1] = Inr ops
       \<and> matrix_product [0, 1] ops = matrix SingleExcitationMinus [1.23])
   \<and> (\<exists>ops. compute_decomposition DoubleExcitation 0 [0, 1, 2, 3] = Inr ops
       \<and> matrix_product [0, 1, 2, 3] ops = matrix DoubleExcitation [0])"
  using decomposition_product_is_matrix [of "[0, 1]" SingleExcitationMinus "1.23"]
    decomposition_product_is_matrix [of "[0, 1, 2, 3]" DoubleExcitation 0]
  by simp

end
